theory Spec2Isabelle
  imports Main
begin

section \<open>The entity store\<close>

text \<open>
  The views of \<^verbatim>\<open>blog/views.py\<close> and the mixins of \<^verbatim>\<open>blog/mixins.py\<close> work on four
  tables. A row carries its primary key and its foreign keys as numbers, as the relational
  store has them; timestamps are integers (a datetime has microsecond resolution).
  The order of a table's rows stands for the model's default ordering.

  The database settings are not among the sources, so the range of the store's integers is a
  parameter: \<open>max_key\<close> is the largest integer the store accepts as a query parameter
  (\<open>2 ^ 63 - 1\<close> for SQLite). The routes capture ids of any size; a lookup by a
  larger key does not reach the table, the database driver raises \<open>OverflowError\<close>.
\<close>

record user =
  user_pk :: nat
  username :: string

record category =
  category_pk :: nat
  slug :: string
  category_is_published :: bool

record post =
  post_pk :: nat
  author_id :: nat
  category_id :: nat
  location_id :: "nat option"
  is_published :: bool
  pub_date :: int
  content :: string

record comment =
  comment_pk :: nat
  comment_post_id :: nat
  comment_author_id :: nat
  comment_content :: string
  created_at :: int

record store =
  users :: "user list"
  categories :: "category list"
  posts :: "post list"
  comments :: "comment list"
  max_key :: nat

section \<open>Requests and responses\<close>

text \<open>\<open>request.user\<close> is a row of the user table or Django's \<open>AnonymousUser\<close>.\<close>

datatype requester = AnonymousUser | Authenticated user

datatype http_method = GET | HEAD | POST | PUT | PATCH | DELETE | OPTIONS | TRACE

text \<open>\<open>req_now\<close> is what \<open>timezone.now()\<close> returns while the request is handled.\<close>

record request =
  req_method :: http_method
  req_user :: requester
  req_now :: int

text \<open>The \<open>page\<close> parameter of the query string, as \<open>paginate_queryset\<close> reads it.\<close>

datatype page_param = NoPage | PageNumber int | PageLast | PageNotAnInteger

text \<open>Exceptions that no view catches; the framework answers them with a server error.\<close>

datatype exception = NoReverseMatch | AttributeError | MultipleObjects | OverflowError

datatype arg = IntArg nat | StrArg string

text \<open>A reversed URL: the route's name and the keyword arguments it was reversed with.\<close>

datatype url = Url string "(string \<times> arg) list"

text \<open>A post as a list view hands it to the template: \<open>comment_count\<close> is \<open>None\<close> when the
  queryset was not annotated.\<close>

record listed =
  item :: post
  comment_count :: "nat option"

datatype page_extra = NoExtra | ProfileOf user | CategoryOf category

datatype template_context =
    PageContext "listed list" page_extra
  | DetailContext post "comment list"
  | PostFormContext "post option"
  | CommentFormContext "comment option"

datatype response =
    TemplateResponse string template_context
  | HttpResponseRedirect url
  | RedirectToLogin
  | Http404
  | HttpResponseNotAllowed
  | OptionsResponse
  | ServerError exception

text \<open>Cleaned data of a submitted form. Modelled from the spec: \<^verbatim>\<open>forms.py\<close> is not among
  the sources; the post form carries the fields of a post other than its author, the comment
  form the comment's content. A view receives \<open>None\<close> when \<open>form.is_valid()\<close> fails.\<close>

record post_form =
  form_category_id :: nat
  form_location_id :: "nat option"
  form_is_published :: bool
  form_pub_date :: int
  form_content :: string

type_synonym comment_form = string

section \<open>Framework services the views call\<close>

text \<open>\<open>Model.objects.get\<close>: exactly one row must match.\<close>

datatype 'a lookup = Found 'a | DoesNotExist | MultipleObjectsReturned

definition get_object_or_404 :: "('a \<Rightarrow> bool) \<Rightarrow> 'a list \<Rightarrow> 'a lookup" where
  "get_object_or_404 P rows =
     (case filter P rows of
        [] \<Rightarrow> DoesNotExist
      | [x] \<Rightarrow> Found x
      | x # y # zs \<Rightarrow> MultipleObjectsReturned)"

text \<open>\<open>request.user == post.author\<close>: model instances are equal when their primary keys are;
  \<open>AnonymousUser\<close> equals no row.\<close>

definition user_is :: "requester \<Rightarrow> nat \<Rightarrow> bool" where
  "user_is r a = (case r of AnonymousUser \<Rightarrow> False | Authenticated u \<Rightarrow> user_pk u = a)"

text \<open>\<open>request.user.username\<close>; \<open>AnonymousUser.username\<close> is the empty string.\<close>

definition requester_username :: "requester \<Rightarrow> string" where
  "requester_username r = (case r of AnonymousUser \<Rightarrow> [] | Authenticated u \<Rightarrow> username u)"

text \<open>The URL configuration (\<^verbatim>\<open>urls.py\<close>) is not among the sources, so it is a parameter:
  for each route name, the names of the groups its pattern captures. \<open>reverse\<close> finds the URL
  when the keyword arguments are exactly those groups, and raises \<open>NoReverseMatch\<close> otherwise.\<close>

type_synonym urlconf = "string \<Rightarrow> string list option"

definition reverse :: "urlconf \<Rightarrow> string \<Rightarrow> (string \<times> arg) list \<Rightarrow> exception + url" where
  "reverse urls name kwargs =
     (case urls name of
        None \<Rightarrow> Inl NoReverseMatch
      | Some params \<Rightarrow>
          if set (map fst kwargs) = set params then Inr (Url name kwargs)
          else Inl NoReverseMatch)"

text \<open>\<open>django.shortcuts.redirect(name, **kwargs)\<close>: a route name holds neither \<open>/\<close> nor \<open>.\<close>,
  so \<open>resolve_url\<close> lets \<open>NoReverseMatch\<close> through.\<close>

definition redirect :: "urlconf \<Rightarrow> string \<Rightarrow> (string \<times> arg) list \<Rightarrow> response" where
  "redirect urls name kwargs =
     (case reverse urls name kwargs of
        Inl e \<Rightarrow> ServerError e
      | Inr u \<Rightarrow> HttpResponseRedirect u)"

text \<open>The routes as the views themselves name them: every \<open>get_success_url\<close> reverses
  \<open>blog:post_detail\<close> with \<open>post_id\<close>, which is also the group \<open>PostDetailView\<close> reads
  (\<open>pk_url_kwarg = 'post_id'\<close>); \<open>blog:profile\<close> is reversed with \<open>username\<close>, \<open>blog:index\<close>
  with nothing.\<close>

definition blog_urls :: urlconf where
  "blog_urls name =
     (if name = ''blog:index'' then Some []
      else if name = ''blog:post_detail'' then Some [''post_id'']
      else if name = ''blog:profile'' then Some [''username'']
      else None)"

definition PAGINATED_BY :: nat where
  "PAGINATED_BY = 10"

text \<open>\<open>django.core.paginator.Paginator\<close> with \<open>orphans = 0\<close> and
  \<open>allow_empty_first_page = True\<close>, the defaults a \<open>ListView\<close> passes.\<close>

definition num_pages :: "nat \<Rightarrow> nat \<Rightarrow> nat" where
  "num_pages per_page count = (max 1 count + per_page - 1) div per_page"

definition paginator_page :: "nat \<Rightarrow> 'a list \<Rightarrow> int \<Rightarrow> 'a list option" where
  "paginator_page per_page object_list number =
     (if number < 1 then None
      else if int (num_pages per_page (length object_list)) < number \<and> number \<noteq> 1 then None
      else
        let bottom = (nat number - 1) * per_page;
            top = (if length object_list \<le> bottom + per_page then length object_list
                   else bottom + per_page)
        in Some (take (top - bottom) (drop bottom object_list)))"

text \<open>\<open>MultipleObjectMixin.paginate_queryset\<close>: no parameter means page 1, \<open>last\<close> the last
  page; \<open>None\<close> is the \<open>Http404\<close> it raises for any other text and for an invalid page.\<close>

definition paginate_queryset :: "'a list \<Rightarrow> nat \<Rightarrow> page_param \<Rightarrow> 'a list option" where
  "paginate_queryset queryset page_size page =
     (case page of
        NoPage \<Rightarrow> paginator_page page_size queryset 1
      | PageNumber n \<Rightarrow> paginator_page page_size queryset n
      | PageLast \<Rightarrow>
          paginator_page page_size queryset (int (num_pages page_size (length queryset)))
      | PageNotAnInteger \<Rightarrow> None)"

section \<open>Querysets\<close>

text \<open>\<open>PostsQuerySetMixin.get_queryset\<close> (\<^verbatim>\<open>mixins.py\<close>).\<close>

definition PostsQuerySetMixin_get_queryset :: "store \<Rightarrow> int \<Rightarrow> post list" where
  "PostsQuerySetMixin_get_queryset s now =
     filter (\<lambda>p. is_published p \<and> pub_date p \<le> now) (posts s)"

text \<open>The rows a foreign key leads to: the lookups \<open>category__...\<close> and \<open>author__...\<close> join
  on them, and a post whose key leads nowhere matches no such lookup.\<close>

definition post_category :: "store \<Rightarrow> post \<Rightarrow> category option" where
  "post_category s p = find (\<lambda>c. category_pk c = category_id p) (categories s)"

definition post_author :: "store \<Rightarrow> post \<Rightarrow> user option" where
  "post_author s p = find (\<lambda>u. user_pk u = author_id p) (users s)"

definition category__is_published :: "store \<Rightarrow> post \<Rightarrow> bool" where
  "category__is_published s p =
     (case post_category s p of None \<Rightarrow> False | Some c \<Rightarrow> category_is_published c)"

definition category__slug :: "store \<Rightarrow> string \<Rightarrow> post \<Rightarrow> bool" where
  "category__slug s v p =
     (case post_category s p of None \<Rightarrow> False | Some c \<Rightarrow> slug c = v)"

definition author__username :: "store \<Rightarrow> string \<Rightarrow> post \<Rightarrow> bool" where
  "author__username s v p =
     (case post_author s p of None \<Rightarrow> False | Some u \<Rightarrow> username u = v)"

text \<open>The reverse relation \<open>post.comments\<close>.\<close>

definition post_comments :: "store \<Rightarrow> post \<Rightarrow> comment list" where
  "post_comments s p = filter (\<lambda>c. comment_post_id c = post_pk p) (comments s)"

text \<open>\<open>queryset.annotate(comment_count=Count('comments'))\<close>, the same method in the three
  list views.\<close>

definition add_comment_count_annotation :: "store \<Rightarrow> post list \<Rightarrow> listed list" where
  "add_comment_count_annotation s queryset =
     map (\<lambda>p. \<lparr>item = p, comment_count = Some (length (post_comments s p))\<rparr>) queryset"

text \<open>A queryset of plain posts: the template finds no \<open>comment_count\<close> on its items.\<close>

definition unannotated :: "post list \<Rightarrow> listed list" where
  "unannotated queryset = map (\<lambda>p. \<lparr>item = p, comment_count = None\<rparr>) queryset"

section \<open>List views\<close>

text \<open>\<open>ListView.get\<close> takes the queryset, paginates it while building the context (an invalid
  page is \<open>Http404\<close>) and renders the template; \<open>HEAD\<close> is served by \<open>get\<close>, \<open>OPTIONS\<close> by the
  framework, any other method is not allowed.\<close>

definition BlogIndexListView_get_queryset :: "store \<Rightarrow> request \<Rightarrow> listed list" where
  "BlogIndexListView_get_queryset s req =
     add_comment_count_annotation s
       (filter (category__is_published s) (PostsQuerySetMixin_get_queryset s (req_now req)))"

definition BlogIndexListView :: "store \<Rightarrow> request \<Rightarrow> page_param \<Rightarrow> response" where
  "BlogIndexListView s req page =
     (if req_method req = GET \<or> req_method req = HEAD then
        (case paginate_queryset (BlogIndexListView_get_queryset s req) PAGINATED_BY page of
           None \<Rightarrow> Http404
         | Some object_list \<Rightarrow>
             TemplateResponse ''blog/index.html'' (PageContext object_list NoExtra))
      else if req_method req = OPTIONS then OptionsResponse
      else HttpResponseNotAllowed)"

definition BlogCategoryListView_get_queryset ::
  "store \<Rightarrow> request \<Rightarrow> string \<Rightarrow> listed list" where
  "BlogCategoryListView_get_queryset s req category_slug =
     add_comment_count_annotation s
       (filter (category__slug s category_slug)
          (PostsQuerySetMixin_get_queryset s (req_now req)))"

definition BlogCategoryListView ::
  "store \<Rightarrow> request \<Rightarrow> string \<Rightarrow> page_param \<Rightarrow> response" where
  "BlogCategoryListView s req category_slug page =
     (if req_method req = GET \<or> req_method req = HEAD then
        (case paginate_queryset (BlogCategoryListView_get_queryset s req category_slug)
                PAGINATED_BY page of
           None \<Rightarrow> Http404
         | Some object_list \<Rightarrow>
             (case get_object_or_404
                     (\<lambda>c. slug c = category_slug \<and> category_is_published c) (categories s) of
                DoesNotExist \<Rightarrow> Http404
              | MultipleObjectsReturned \<Rightarrow> ServerError MultipleObjects
              | Found c \<Rightarrow>
                  TemplateResponse ''blog/category.html''
                    (PageContext object_list (CategoryOf c))))
      else if req_method req = OPTIONS then OptionsResponse
      else HttpResponseNotAllowed)"

text \<open>The profile: the owner's branch reads \<open>request.user.posts\<close>, which \<open>AnonymousUser\<close> does
  not have.\<close>

definition AuthorProfileListView_get_queryset ::
  "store \<Rightarrow> request \<Rightarrow> string \<Rightarrow> exception + listed list" where
  "AuthorProfileListView_get_queryset s req uname =
     (if requester_username (req_user req) = uname then
        (case req_user req of
           AnonymousUser \<Rightarrow> Inl AttributeError
         | Authenticated u \<Rightarrow>
             Inr (unannotated (filter (\<lambda>p. author_id p = user_pk u) (posts s))))
      else
        Inr (add_comment_count_annotation s
               (filter (author__username s uname)
                  (PostsQuerySetMixin_get_queryset s (req_now req)))))"

definition AuthorProfileListView ::
  "store \<Rightarrow> request \<Rightarrow> string \<Rightarrow> page_param \<Rightarrow> response" where
  "AuthorProfileListView s req uname page =
     (if req_method req = GET \<or> req_method req = HEAD then
        (case AuthorProfileListView_get_queryset s req uname of
           Inl e \<Rightarrow> ServerError e
         | Inr queryset \<Rightarrow>
             (case paginate_queryset queryset PAGINATED_BY page of
                None \<Rightarrow> Http404
              | Some object_list \<Rightarrow>
                  (case get_object_or_404 (\<lambda>u. username u = uname) (users s) of
                     DoesNotExist \<Rightarrow> Http404
                   | MultipleObjectsReturned \<Rightarrow> ServerError MultipleObjects
                   | Found u \<Rightarrow>
                       TemplateResponse ''blog/profile.html''
                         (PageContext object_list (ProfileOf u)))))
      else if req_method req = OPTIONS then OptionsResponse
      else HttpResponseNotAllowed)"

text \<open>The posts on the page a response shows (none when it is not a list page).\<close>

definition page_items :: "response \<Rightarrow> listed list" where
  "page_items r =
     (case r of
        TemplateResponse t (PageContext object_list x) \<Rightarrow> object_list
      | _ \<Rightarrow> [])"

section \<open>The detail view\<close>

definition PostDetailView_get_object :: "store \<Rightarrow> request \<Rightarrow> nat \<Rightarrow> post lookup" where
  "PostDetailView_get_object s req post_id =
     (case get_object_or_404 (\<lambda>p. post_pk p = post_id) (posts s) of
        DoesNotExist \<Rightarrow> DoesNotExist
      | MultipleObjectsReturned \<Rightarrow> MultipleObjectsReturned
      | Found p \<Rightarrow>
          if user_is (req_user req) (author_id p) then Found p
          else get_object_or_404
                 (\<lambda>p. is_published p \<and> category__is_published s p
                        \<and> pub_date p < req_now req \<and> post_pk p = post_id)
                 (posts s))"

definition PostDetailView :: "store \<Rightarrow> request \<Rightarrow> nat \<Rightarrow> response" where
  "PostDetailView s req post_id =
     (if req_method req = GET \<or> req_method req = HEAD then
        (if max_key s < post_id then ServerError OverflowError
         else case PostDetailView_get_object s req post_id of
           DoesNotExist \<Rightarrow> Http404
         | MultipleObjectsReturned \<Rightarrow> ServerError MultipleObjects
         | Found p \<Rightarrow> TemplateResponse ''blog/detail.html'' (DetailContext p (post_comments s p)))
      else if req_method req = OPTIONS then OptionsResponse
      else HttpResponseNotAllowed)"

section \<open>Saving and deleting rows\<close>

text \<open>The store gives a new row a primary key that no row of the table has.\<close>

definition next_pk :: "nat list \<Rightarrow> nat" where
  "next_pk ks = Suc (fold max ks 0)"

text \<open>\<open>form.save()\<close> of a post form whose instance has no primary key yet: \<open>a\<close> is the author
  \<open>form_valid\<close> has put on the instance.\<close>

definition new_post :: "store \<Rightarrow> nat \<Rightarrow> post_form \<Rightarrow> post" where
  "new_post s a f =
     \<lparr>post_pk = next_pk (map post_pk (posts s)), author_id = a,
      category_id = form_category_id f, location_id = form_location_id f,
      is_published = form_is_published f, pub_date = form_pub_date f,
      content = form_content f\<rparr>"

text \<open>\<open>form.save()\<close> of a post form bound to the row \<open>p\<close>: the form's fields are written, the
  key and the author stay.\<close>

definition edited_post :: "post_form \<Rightarrow> post \<Rightarrow> post" where
  "edited_post f p =
     p\<lparr>category_id := form_category_id f, location_id := form_location_id f,
       is_published := form_is_published f, pub_date := form_pub_date f,
       content := form_content f\<rparr>"

definition update_post :: "store \<Rightarrow> post \<Rightarrow> store" where
  "update_post s p = s\<lparr>posts := map (\<lambda>q. if post_pk q = post_pk p then p else q) (posts s)\<rparr>"

text \<open>\<open>post.delete()\<close>. Modelled from the spec: \<^verbatim>\<open>models.py\<close> is not among the sources; a
  comment always refers to a post, so the comments of a deleted post go with it.\<close>

definition delete_post :: "store \<Rightarrow> post \<Rightarrow> store" where
  "delete_post s p =
     s\<lparr>posts := filter (\<lambda>q. post_pk q \<noteq> post_pk p) (posts s),
       comments := filter (\<lambda>c. comment_post_id c \<noteq> post_pk p) (comments s)\<rparr>"

text \<open>A new comment: \<open>form_valid\<close> has put the post and the author on the instance. Modelled
  from the spec: the creation timestamp is the time of the request.\<close>

definition new_comment :: "store \<Rightarrow> post \<Rightarrow> user \<Rightarrow> comment_form \<Rightarrow> int \<Rightarrow> comment" where
  "new_comment s p u f now =
     \<lparr>comment_pk = next_pk (map comment_pk (comments s)), comment_post_id = post_pk p,
      comment_author_id = user_pk u, comment_content = f, created_at = now\<rparr>"

definition update_comment :: "store \<Rightarrow> comment \<Rightarrow> store" where
  "update_comment s c =
     s\<lparr>comments := map (\<lambda>d. if comment_pk d = comment_pk c then c else d) (comments s)\<rparr>"

definition delete_comment :: "store \<Rightarrow> comment \<Rightarrow> store" where
  "delete_comment s c = s\<lparr>comments := filter (\<lambda>d. comment_pk d \<noteq> comment_pk c) (comments s)\<rparr>"

section \<open>Views that change the store\<close>

text \<open>
  Each view returns its response and the store it leaves. The generic views are Django's as
  the views are written for them: \<open>DeleteView.post\<close> calls \<open>delete\<close> (the method the two
  delete views override), \<open>get\<close> renders the confirmation page; in a form view \<open>put\<close> is served
  by \<open>post\<close> (its form is built from \<open>request.POST\<close>, which a \<open>PUT\<close> leaves empty, so a form
  with a required field reaches such a request as \<open>None\<close>); \<open>ModelFormMixin.form_valid\<close> saves and then asks for the success URL, while
  \<open>DeletionMixin.delete\<close> asks for the success URL first and deletes then.

  \<open>LoginRequiredMixin.dispatch\<close> sends a request without a logged-in user to the login page
  before any handler runs. A view that overrides \<open>dispatch\<close> runs its own code first.

  Every lookup by the key of the URL starts with the test of the key against \<open>max_key\<close>:
  that is where the query raises \<open>OverflowError\<close>.
\<close>

definition LoginRequiredMixin_dispatch ::
  "request \<Rightarrow> store \<Rightarrow> response \<times> store \<Rightarrow> response \<times> store" where
  "LoginRequiredMixin_dispatch req s handler =
     (case req_user req of
        AnonymousUser \<Rightarrow> (RedirectToLogin, s)
      | Authenticated u \<Rightarrow> handler)"

subsection \<open>\<open>PostDeleteView\<close>\<close>

definition PostDeleteView_delete ::
  "urlconf \<Rightarrow> store \<Rightarrow> request \<Rightarrow> nat \<Rightarrow> response \<times> store" where
  "PostDeleteView_delete urls s req post_id =
     (if max_key s < post_id then (ServerError OverflowError, s)
      else case get_object_or_404 (\<lambda>p. post_pk p = post_id) (posts s) of
        DoesNotExist \<Rightarrow> (Http404, s)
      | MultipleObjectsReturned \<Rightarrow> (ServerError MultipleObjects, s)
      | Found p \<Rightarrow>
          if \<not> user_is (req_user req) (author_id p) then (redirect urls ''blog:index'' [], s)
          else
            (case reverse urls ''blog:index'' [] of
               Inl e \<Rightarrow> (ServerError e, s)
             | Inr u \<Rightarrow> (HttpResponseRedirect u, delete_post s p)))"

definition PostDeleteView_get :: "store \<Rightarrow> nat \<Rightarrow> response \<times> store" where
  "PostDeleteView_get s post_id =
     (if max_key s < post_id then (ServerError OverflowError, s)
      else case get_object_or_404 (\<lambda>p. post_pk p = post_id) (posts s) of
        DoesNotExist \<Rightarrow> (Http404, s)
      | MultipleObjectsReturned \<Rightarrow> (ServerError MultipleObjects, s)
      | Found p \<Rightarrow> (TemplateResponse ''blog/create.html'' (PostFormContext (Some p)), s))"

definition PostDeleteView :: "urlconf \<Rightarrow> store \<Rightarrow> request \<Rightarrow> nat \<Rightarrow> response \<times> store" where
  "PostDeleteView urls s req post_id =
     LoginRequiredMixin_dispatch req s
       (if req_method req = GET \<or> req_method req = HEAD then PostDeleteView_get s post_id
        else if req_method req = POST \<or> req_method req = DELETE
          then PostDeleteView_delete urls s req post_id
        else if req_method req = OPTIONS then (OptionsResponse, s)
        else (HttpResponseNotAllowed, s))"

subsection \<open>\<open>PostUpdateView\<close>\<close>

definition PostUpdateView_handler ::
  "urlconf \<Rightarrow> store \<Rightarrow> request \<Rightarrow> nat \<Rightarrow> post \<Rightarrow> post_form option
     \<Rightarrow> response \<times> store" where
  "PostUpdateView_handler urls s req post_id p form =
     (if req_method req = GET \<or> req_method req = HEAD
        then (TemplateResponse ''blog/create.html'' (PostFormContext (Some p)), s)
      else if req_method req = POST \<or> req_method req = PUT then
        (case form of
           None \<Rightarrow> (TemplateResponse ''blog/create.html'' (PostFormContext (Some p)), s)
         | Some f \<Rightarrow>
             (redirect urls ''blog:post_detail'' [(''post_id'', IntArg post_id)],
              update_post s (edited_post f p)))
      else if req_method req = OPTIONS then (OptionsResponse, s)
      else (HttpResponseNotAllowed, s))"

definition PostUpdateView ::
  "urlconf \<Rightarrow> store \<Rightarrow> request \<Rightarrow> nat \<Rightarrow> post_form option \<Rightarrow> response \<times> store" where
  "PostUpdateView urls s req post_id form =
     (if max_key s < post_id then (ServerError OverflowError, s)
      else case get_object_or_404 (\<lambda>p. post_pk p = post_id) (posts s) of
        DoesNotExist \<Rightarrow> (Http404, s)
      | MultipleObjectsReturned \<Rightarrow> (ServerError MultipleObjects, s)
      | Found p \<Rightarrow>
          if \<not> user_is (req_user req) (author_id p)
            then (redirect urls ''blog:post_detail'' [(''pk'', IntArg post_id)], s)
          else LoginRequiredMixin_dispatch req s
                 (PostUpdateView_handler urls s req post_id p form))"

subsection \<open>\<open>PostCreateView\<close>\<close>

definition PostCreateView_form_valid ::
  "urlconf \<Rightarrow> store \<Rightarrow> user \<Rightarrow> post_form \<Rightarrow> response \<times> store" where
  "PostCreateView_form_valid urls s u f =
     (redirect urls ''blog:profile'' [(''username'', StrArg (username u))],
      s\<lparr>posts := posts s @ [new_post s (user_pk u) f]\<rparr>)"

definition PostCreateView ::
  "urlconf \<Rightarrow> store \<Rightarrow> request \<Rightarrow> post_form option \<Rightarrow> response \<times> store" where
  "PostCreateView urls s req form =
     (case req_user req of
        AnonymousUser \<Rightarrow> (RedirectToLogin, s)
      | Authenticated u \<Rightarrow>
          if req_method req = GET \<or> req_method req = HEAD
            then (TemplateResponse ''blog/create.html'' (PostFormContext None), s)
          else if req_method req = POST \<or> req_method req = PUT then
            (case form of
               None \<Rightarrow> (TemplateResponse ''blog/create.html'' (PostFormContext None), s)
             | Some f \<Rightarrow> PostCreateView_form_valid urls s u f)
          else if req_method req = OPTIONS then (OptionsResponse, s)
          else (HttpResponseNotAllowed, s))"

subsection \<open>\<open>CommentCreateView\<close>\<close>

text \<open>The view names no template, so the generic view's default name is used.\<close>

definition CommentCreateView_form_valid ::
  "urlconf \<Rightarrow> store \<Rightarrow> request \<Rightarrow> user \<Rightarrow> nat \<Rightarrow> comment_form \<Rightarrow> response \<times> store" where
  "CommentCreateView_form_valid urls s req u post_id f =
     (if max_key s < post_id then (ServerError OverflowError, s)
      else case get_object_or_404 (\<lambda>p. post_pk p = post_id) (posts s) of
        DoesNotExist \<Rightarrow> (Http404, s)
      | MultipleObjectsReturned \<Rightarrow> (ServerError MultipleObjects, s)
      | Found p \<Rightarrow>
          (redirect urls ''blog:post_detail'' [(''post_id'', IntArg post_id)],
           s\<lparr>comments := comments s @ [new_comment s p u f (req_now req)]\<rparr>))"

definition CommentCreateView ::
  "urlconf \<Rightarrow> store \<Rightarrow> request \<Rightarrow> nat \<Rightarrow> comment_form option \<Rightarrow> response \<times> store" where
  "CommentCreateView urls s req post_id form =
     (case req_user req of
        AnonymousUser \<Rightarrow> (RedirectToLogin, s)
      | Authenticated u \<Rightarrow>
          if req_method req = GET \<or> req_method req = HEAD
            then (TemplateResponse ''blog/comment_form.html'' (CommentFormContext None), s)
          else if req_method req = POST \<or> req_method req = PUT then
            (case form of
               None \<Rightarrow>
                 (TemplateResponse ''blog/comment_form.html'' (CommentFormContext None), s)
             | Some f \<Rightarrow> CommentCreateView_form_valid urls s req u post_id f)
          else if req_method req = OPTIONS then (OptionsResponse, s)
          else (HttpResponseNotAllowed, s))"

subsection \<open>\<open>CommentDeleteView\<close>\<close>

definition CommentDeleteView_delete ::
  "urlconf \<Rightarrow> store \<Rightarrow> request \<Rightarrow> nat \<Rightarrow> nat \<Rightarrow> response \<times> store" where
  "CommentDeleteView_delete urls s req post_id comment_pk' =
     (if max_key s < comment_pk' then (ServerError OverflowError, s)
      else case get_object_or_404 (\<lambda>c. comment_pk c = comment_pk') (comments s) of
        DoesNotExist \<Rightarrow> (Http404, s)
      | MultipleObjectsReturned \<Rightarrow> (ServerError MultipleObjects, s)
      | Found c \<Rightarrow>
          if \<not> user_is (req_user req) (comment_author_id c)
            then (redirect urls ''blog:post_detail'' [(''pk'', IntArg post_id)], s)
          else
            (case reverse urls ''blog:post_detail'' [(''post_id'', IntArg post_id)] of
               Inl e \<Rightarrow> (ServerError e, s)
             | Inr u \<Rightarrow> (HttpResponseRedirect u, delete_comment s c)))"

definition CommentDeleteView_get :: "store \<Rightarrow> nat \<Rightarrow> response \<times> store" where
  "CommentDeleteView_get s comment_pk' =
     (if max_key s < comment_pk' then (ServerError OverflowError, s)
      else case get_object_or_404 (\<lambda>c. comment_pk c = comment_pk') (comments s) of
        DoesNotExist \<Rightarrow> (Http404, s)
      | MultipleObjectsReturned \<Rightarrow> (ServerError MultipleObjects, s)
      | Found c \<Rightarrow> (TemplateResponse ''blog/comment.html'' (CommentFormContext (Some c)), s))"

definition CommentDeleteView ::
  "urlconf \<Rightarrow> store \<Rightarrow> request \<Rightarrow> nat \<Rightarrow> nat \<Rightarrow> response \<times> store" where
  "CommentDeleteView urls s req post_id comment_pk' =
     LoginRequiredMixin_dispatch req s
       (if req_method req = GET \<or> req_method req = HEAD then CommentDeleteView_get s comment_pk'
        else if req_method req = POST \<or> req_method req = DELETE
          then CommentDeleteView_delete urls s req post_id comment_pk'
        else if req_method req = OPTIONS then (OptionsResponse, s)
        else (HttpResponseNotAllowed, s))"

subsection \<open>\<open>CommentUpdateView\<close>\<close>

definition CommentUpdateView_handler ::
  "urlconf \<Rightarrow> store \<Rightarrow> request \<Rightarrow> nat \<Rightarrow> comment \<Rightarrow> comment_form option
     \<Rightarrow> response \<times> store" where
  "CommentUpdateView_handler urls s req post_id c form =
     (if req_method req = GET \<or> req_method req = HEAD
        then (TemplateResponse ''blog/comment.html'' (CommentFormContext (Some c)), s)
      else if req_method req = POST \<or> req_method req = PUT then
        (case form of
           None \<Rightarrow> (TemplateResponse ''blog/comment.html'' (CommentFormContext (Some c)), s)
         | Some f \<Rightarrow>
             (redirect urls ''blog:post_detail'' [(''post_id'', IntArg post_id)],
              update_comment s (c\<lparr>comment_content := f\<rparr>)))
      else if req_method req = OPTIONS then (OptionsResponse, s)
      else (HttpResponseNotAllowed, s))"

definition CommentUpdateView ::
  "urlconf \<Rightarrow> store \<Rightarrow> request \<Rightarrow> nat \<Rightarrow> nat \<Rightarrow> comment_form option
     \<Rightarrow> response \<times> store" where
  "CommentUpdateView urls s req post_id comment_pk' form =
     (if max_key s < comment_pk' then (ServerError OverflowError, s)
      else case get_object_or_404 (\<lambda>c. comment_pk c = comment_pk') (comments s) of
        DoesNotExist \<Rightarrow> (Http404, s)
      | MultipleObjectsReturned \<Rightarrow> (ServerError MultipleObjects, s)
      | Found c \<Rightarrow>
          if \<not> user_is (req_user req) (comment_author_id c)
            then (redirect urls ''blog:post_detail'' [(''pk'', IntArg post_id)], s)
          else LoginRequiredMixin_dispatch req s
                 (CommentUpdateView_handler urls s req post_id c form))"

section \<open>A sample blog\<close>

text \<open>Two users, a published and an unpublished category, four posts of alice's and one
  comment, in a store whose integers are SQLite's. The sample requests are made at time 100.\<close>

definition alice :: user where
  "alice = \<lparr>user_pk = 1, username = ''alice''\<rparr>"

definition bob :: user where
  "bob = \<lparr>user_pk = 2, username = ''bob''\<rparr>"

definition travel :: category where
  "travel = \<lparr>category_pk = 1, slug = ''travel'', category_is_published = True\<rparr>"

definition drafts :: category where
  "drafts = \<lparr>category_pk = 2, slug = ''drafts'', category_is_published = False\<rparr>"

definition sample_post :: "nat \<Rightarrow> nat \<Rightarrow> bool \<Rightarrow> int \<Rightarrow> post" where
  "sample_post k c pub d =
     \<lparr>post_pk = k, author_id = 1, category_id = c, location_id = None,
      is_published = pub, pub_date = d, content = ''post''\<rparr>"

definition first_comment :: comment where
  "first_comment =
     \<lparr>comment_pk = 1, comment_post_id = 1, comment_author_id = 1,
      comment_content = ''hello'', created_at = 60\<rparr>"

definition blog :: store where
  "blog =
     \<lparr>users = [alice, bob], categories = [travel, drafts],
      posts = [sample_post 1 1 True 50, sample_post 2 2 True 50,
               sample_post 3 1 True 100, sample_post 4 2 False 200],
      comments = [first_comment], max_key = 9223372036854775807\<rparr>"

definition request_of :: "http_method \<Rightarrow> requester \<Rightarrow> request" where
  "request_of m r = \<lparr>req_method = m, req_user = r, req_now = 100\<rparr>"

text \<open>A blog with eleven public posts.\<close>

definition busy_blog :: store where
  "busy_blog =
     \<lparr>users = [alice, bob], categories = [travel],
      posts = map (\<lambda>k. sample_post k 1 True 50) [1, 2, 3, 4, 5, 6, 7, 8, 9, 10, 11],
      comments = [], max_key = 9223372036854775807\<rparr>"

text \<open>The items of a page, none when \<open>paginate_queryset\<close> raises \<open>Http404\<close>.\<close>

definition shown :: "'a list option \<Rightarrow> 'a list" where
  "shown r = (case r of None \<Rightarrow> [] | Some ys \<Rightarrow> ys)"

text \<open>A post form that validates.\<close>

definition sample_form :: post_form where
  "sample_form =
     \<lparr>form_category_id = 1, form_location_id = None, form_is_published = True,
      form_pub_date = 150, form_content = ''news''\<rparr>"

section \<open>Pagination\<close>

lemma paginator_page_length:
  "paginator_page n xs k = Some ys \<Longrightarrow> length ys \<le> n"
  by (auto simp: paginator_page_def Let_def split: if_splits)

lemma paginator_page_subset:
  "paginator_page n xs k = Some ys \<Longrightarrow> set ys \<subseteq> set xs"
  by (auto simp: paginator_page_def Let_def split: if_splits dest: in_set_takeD in_set_dropD)

lemma paginate_queryset_length:
  "paginate_queryset xs n page = Some ys \<Longrightarrow> length ys \<le> n"
  by (auto simp: paginate_queryset_def split: page_param.splits dest: paginator_page_length)

lemma paginate_queryset_subset:
  "paginate_queryset xs n page = Some ys \<Longrightarrow> set ys \<subseteq> set xs"
  by (auto simp: paginate_queryset_def split: page_param.splits dest: paginator_page_subset)

lemma num_pages_covers:
  assumes "i < count" and "0 < n"
  shows "i div n < num_pages n count"
proof -
  have "i div n \<le> (count - 1) div n"
    using assms by (intro div_le_mono) simp
  also have "(count - 1) div n < (count - 1 + n) div n"
    using assms(2) by (simp add: div_add_self2)
  also have "count - 1 + n = max 1 count + n - 1"
    using assms by simp
  finally show ?thesis
    by (simp add: num_pages_def)
qed

lemma slice_nth:
  assumes "b \<le> i" and "i < t" and "t \<le> length xs"
  shows "xs ! i \<in> set (take (t - b) (drop b xs))"
proof -
  have "i - b < length (take (t - b) (drop b xs))"
    using assms by simp
  moreover have "take (t - b) (drop b xs) ! (i - b) = xs ! i"
    using assms by simp
  ultimately show ?thesis
    by (metis nth_mem)
qed

lemma paginator_page_nth:
  assumes "i < length xs" and "0 < n"
  shows "\<exists>ys. paginator_page n xs (int (i div n) + 1) = Some ys \<and> xs ! i \<in> set ys"
proof -
  let ?k = "int (i div n) + 1"
  let ?b = "(nat ?k - 1) * n"
  let ?t = "if length xs \<le> ?b + n then length xs else ?b + n"
  have "nat ?k - 1 = i div n"
    by linarith
  then have b: "?b = (i div n) * n"
    by simp
  have "\<not> int (num_pages n (length xs)) < ?k"
    using num_pages_covers [OF assms] by simp
  then have page: "paginator_page n xs ?k = Some (take (?t - ?b) (drop ?b xs))"
    by (simp add: paginator_page_def Let_def)
  have "?b \<le> i"
    unfolding b by simp
  moreover have "i < ?b + n"
    unfolding b using assms(2) by (metis add.commute dividend_less_div_times)
  then have "i < ?t"
    using assms(1) by simp
  moreover have "?t \<le> length xs"
    by simp
  ultimately have "xs ! i \<in> set (take (?t - ?b) (drop ?b xs))"
    by (rule slice_nth)
  with page show ?thesis
    by blast
qed

lemma paginate_queryset_reaches:
  assumes "x \<in> set xs" and "0 < n"
  shows "\<exists>k ys. paginate_queryset xs n (PageNumber k) = Some ys \<and> x \<in> set ys"
proof -
  from assms(1) obtain i where "i < length xs" and "xs ! i = x"
    by (auto simp: in_set_conv_nth)
  with paginator_page_nth [OF \<open>i < length xs\<close> assms(2)] show ?thesis
    by (auto simp: paginate_queryset_def)
qed

lemma shown_subset: "set (shown (paginate_queryset xs n page)) \<subseteq> set xs"
  by (cases "paginate_queryset xs n page") (auto simp: shown_def dest: paginate_queryset_subset)

section \<open>What the list views show\<close>

lemma index_page_items:
  "set (page_items (BlogIndexListView s req page))
     \<subseteq> set (shown (paginate_queryset (BlogIndexListView_get_queryset s req) PAGINATED_BY page))"
  by (simp add: BlogIndexListView_def page_items_def shown_def split: option.split)

lemma index_items:
  assumes "x \<in> set (page_items (BlogIndexListView s req page))"
  shows "x \<in> set (BlogIndexListView_get_queryset s req)"
  using assms index_page_items [of s req page]
    shown_subset [of "BlogIndexListView_get_queryset s req" PAGINATED_BY page]
  by auto

lemma category_page_items:
  "set (page_items (BlogCategoryListView s req sl page))
     \<subseteq> set (shown (paginate_queryset (BlogCategoryListView_get_queryset s req sl)
                        PAGINATED_BY page))"
  by (simp add: BlogCategoryListView_def page_items_def shown_def
      split: option.split lookup.split)

lemma category_items:
  assumes "x \<in> set (page_items (BlogCategoryListView s req sl page))"
  shows "x \<in> set (BlogCategoryListView_get_queryset s req sl)"
  using assms category_page_items [of s req sl page]
    shown_subset [of "BlogCategoryListView_get_queryset s req sl" PAGINATED_BY page]
  by auto

lemma profile_page_items:
  "set (page_items (AuthorProfileListView s req uname page))
     \<subseteq> (case AuthorProfileListView_get_queryset s req uname of
          Inl e \<Rightarrow> {}
        | Inr qs \<Rightarrow> set (shown (paginate_queryset qs PAGINATED_BY page)))"
  by (simp add: AuthorProfileListView_def page_items_def shown_def
      split: option.split lookup.split sum.split)

lemma profile_items:
  assumes "x \<in> set (page_items (AuthorProfileListView s req uname page))"
  shows "\<exists>qs. AuthorProfileListView_get_queryset s req uname = Inr qs \<and> x \<in> set qs"
proof (cases "AuthorProfileListView_get_queryset s req uname")
  case (Inl e)
  with assms profile_page_items [of s req uname page] show ?thesis
    by auto
next
  case (Inr qs)
  with assms profile_page_items [of s req uname page] shown_subset [of qs PAGINATED_BY page]
  show ?thesis
    by auto
qed

lemma index_queryset_item:
  assumes "x \<in> set (BlogIndexListView_get_queryset s req)"
  shows "item x \<in> set (posts s) \<and> is_published (item x) \<and> pub_date (item x) \<le> req_now req
       \<and> category__is_published s (item x)
       \<and> comment_count x = Some (length (post_comments s (item x)))"
proof -
  from assms obtain p
    where "x = \<lparr>item = p, comment_count = Some (length (post_comments s p))\<rparr>"
      and "p \<in> set (posts s)" and "is_published p" and "pub_date p \<le> req_now req"
      and "category__is_published s p"
    unfolding BlogIndexListView_get_queryset_def add_comment_count_annotation_def
      PostsQuerySetMixin_get_queryset_def
    by auto
  then show ?thesis
    by simp
qed

lemma category_queryset_item:
  assumes "x \<in> set (BlogCategoryListView_get_queryset s req sl)"
  shows "item x \<in> set (posts s) \<and> is_published (item x) \<and> pub_date (item x) \<le> req_now req
       \<and> category__slug s sl (item x)
       \<and> comment_count x = Some (length (post_comments s (item x)))"
proof -
  from assms obtain p
    where "x = \<lparr>item = p, comment_count = Some (length (post_comments s p))\<rparr>"
      and "p \<in> set (posts s)" and "is_published p" and "pub_date p \<le> req_now req"
      and "category__slug s sl p"
    unfolding BlogCategoryListView_get_queryset_def add_comment_count_annotation_def
      PostsQuerySetMixin_get_queryset_def
    by auto
  then show ?thesis
    by simp
qed

lemma other_profile_queryset_item:
  assumes "AuthorProfileListView_get_queryset s req uname = Inr qs"
    and "requester_username (req_user req) \<noteq> uname" and "x \<in> set qs"
  shows "item x \<in> set (posts s) \<and> is_published (item x) \<and> pub_date (item x) \<le> req_now req
       \<and> author__username s uname (item x)
       \<and> comment_count x = Some (length (post_comments s (item x)))"
proof -
  from assms(1,2) have "qs = add_comment_count_annotation s
      (filter (author__username s uname) (PostsQuerySetMixin_get_queryset s (req_now req)))"
    by (simp add: AuthorProfileListView_get_queryset_def)
  with assms(3) obtain p
    where "x = \<lparr>item = p, comment_count = Some (length (post_comments s p))\<rparr>"
      and "p \<in> set (posts s)" and "is_published p" and "pub_date p \<le> req_now req"
      and "author__username s uname p"
    unfolding add_comment_count_annotation_def PostsQuerySetMixin_get_queryset_def
    by auto
  then show ?thesis
    by simp
qed

lemma own_profile_page:
  assumes "req_user req = Authenticated u"
    and "req_method req = GET \<or> req_method req = HEAD"
    and "get_object_or_404 (\<lambda>x. username x = username u) (users s) = Found u'"
    and "p \<in> set (posts s)" and "author_id p = user_pk u"
  shows "\<exists>n. p \<in> set (map item (page_items
                (AuthorProfileListView s req (username u) (PageNumber n))))"
proof -
  let ?qs = "unannotated (filter (\<lambda>p. author_id p = user_pk u) (posts s))"
  let ?x = "\<lparr>item = p, comment_count = None\<rparr>"
  have qs: "AuthorProfileListView_get_queryset s req (username u) = Inr ?qs"
    using assms(1) by (simp add: AuthorProfileListView_get_queryset_def requester_username_def)
  have "?x \<in> set ?qs"
    using assms(4,5) by (simp add: unannotated_def)
  moreover have "0 < PAGINATED_BY"
    by (simp add: PAGINATED_BY_def)
  ultimately obtain n ys
    where page: "paginate_queryset ?qs PAGINATED_BY (PageNumber n) = Some ys"
      and x: "?x \<in> set ys"
    using paginate_queryset_reaches [of ?x ?qs PAGINATED_BY] by blast
  have "page_items (AuthorProfileListView s req (username u) (PageNumber n)) = ys"
    using assms(2,3) qs page by (simp add: AuthorProfileListView_def page_items_def)
  moreover have "item ?x \<in> item ` set ys"
    using x by (rule imageI)
  ultimately show ?thesis
    by auto
qed

section \<open>Keys, lookups and URL reversing\<close>

lemma fold_max_ge: "k \<in> set ks \<Longrightarrow> k \<le> fold max ks (m::nat)"
proof (induction ks arbitrary: m)
  case Nil
  then show ?case by simp
next
  case (Cons a ks)
  have mono: "m \<le> fold max ks m" for m :: nat
    by (induction ks arbitrary: m) (auto intro: order_trans [OF max.cobounded2])
  from Cons show ?case
  proof (cases "k = a")
    case True
    then show ?thesis
      using mono [of "max a m"] by simp
  next
    case False
    with Cons show ?thesis by simp
  qed
qed

lemma next_pk_fresh: "next_pk ks \<notin> set ks"
  using fold_max_ge [of "next_pk ks" ks 0] by (auto simp: next_pk_def)

lemma get_object_or_404_Found:
  "get_object_or_404 P rows = Found x \<Longrightarrow> filter P rows = [x]"
  by (simp add: get_object_or_404_def split: list.splits)

lemma redirect_not_login: "redirect urls name kwargs \<noteq> RedirectToLogin"
  by (simp add: redirect_def split: sum.split)

lemma reverse_post_detail_clash:
  assumes "reverse urls ''blog:post_detail'' [(''post_id'', a)] = Inr u"
  shows "redirect urls ''blog:post_detail'' [(''pk'', b)] = ServerError NoReverseMatch"
proof -
  from assms obtain params where "urls ''blog:post_detail'' = Some params"
    and "set params = {''post_id''}"
    by (auto simp: reverse_def split: option.splits if_splits)
  then show ?thesis
    by (auto simp: redirect_def reverse_def)
qed

section \<open>Who changes the store\<close>

text \<open>A view that checks ownership leaves the store as it was unless the requester is the
  author of the row the URL names; a request without a logged-in user changes nothing in any
  of the six views. The two delete views and the two create views answer such a request with
  the login redirect; the two update views never do, since their own \<open>dispatch\<close> compares
  the requester with the author before \<open>LoginRequiredMixin.dispatch\<close> is reached.\<close>

lemma post_delete_changes_only_for_author:
  assumes "snd (PostDeleteView urls s req post_id) \<noteq> s"
  shows "\<exists>p. get_object_or_404 (\<lambda>p. post_pk p = post_id) (posts s) = Found p
           \<and> user_is (req_user req) (author_id p)"
  using assms
  by (auto simp: PostDeleteView_def LoginRequiredMixin_dispatch_def PostDeleteView_get_def
      PostDeleteView_delete_def split: requester.splits if_splits lookup.splits sum.splits)

lemma post_update_changes_only_for_author:
  assumes "snd (PostUpdateView urls s req post_id form) \<noteq> s"
  shows "\<exists>p. get_object_or_404 (\<lambda>p. post_pk p = post_id) (posts s) = Found p
           \<and> user_is (req_user req) (author_id p)"
  using assms
  by (auto simp: PostUpdateView_def LoginRequiredMixin_dispatch_def PostUpdateView_handler_def
      split: requester.splits if_splits lookup.splits option.splits)

lemma comment_delete_changes_only_for_author:
  assumes "snd (CommentDeleteView urls s req post_id k) \<noteq> s"
  shows "\<exists>c. get_object_or_404 (\<lambda>c. comment_pk c = k) (comments s) = Found c
           \<and> user_is (req_user req) (comment_author_id c)"
  using assms
  by (auto simp: CommentDeleteView_def LoginRequiredMixin_dispatch_def CommentDeleteView_get_def
      CommentDeleteView_delete_def split: requester.splits if_splits lookup.splits sum.splits)

lemma comment_update_changes_only_for_author:
  assumes "snd (CommentUpdateView urls s req post_id k form) \<noteq> s"
  shows "\<exists>c. get_object_or_404 (\<lambda>c. comment_pk c = k) (comments s) = Found c
           \<and> user_is (req_user req) (comment_author_id c)"
  using assms
  by (auto simp: CommentUpdateView_def LoginRequiredMixin_dispatch_def
      CommentUpdateView_handler_def
      split: requester.splits if_splits lookup.splits option.splits)

lemma anonymous_changes_nothing:
  assumes "req_user req = AnonymousUser"
  shows "snd (PostCreateView urls s req pform) = s"
    and "snd (PostUpdateView urls s req post_id pform) = s"
    and "snd (PostDeleteView urls s req post_id) = s"
    and "snd (CommentCreateView urls s req post_id cform) = s"
    and "snd (CommentUpdateView urls s req post_id k cform) = s"
    and "snd (CommentDeleteView urls s req post_id k) = s"
  using assms
  by (simp_all add: PostCreateView_def PostUpdateView_def PostDeleteView_def
      CommentCreateView_def CommentUpdateView_def CommentDeleteView_def
      LoginRequiredMixin_dispatch_def user_is_def split: lookup.split)

lemma anonymous_login_redirect:
  assumes "req_user req = AnonymousUser"
  shows "fst (PostCreateView urls s req pform) = RedirectToLogin"
    and "fst (PostDeleteView urls s req post_id) = RedirectToLogin"
    and "fst (CommentCreateView urls s req post_id cform) = RedirectToLogin"
    and "fst (CommentDeleteView urls s req post_id k) = RedirectToLogin"
  using assms
  by (simp_all add: PostCreateView_def PostDeleteView_def CommentCreateView_def
      CommentDeleteView_def LoginRequiredMixin_dispatch_def)

lemma anonymous_update_never_login:
  assumes "req_user req = AnonymousUser"
  shows "fst (PostUpdateView urls s req post_id pform) \<noteq> RedirectToLogin"
    and "fst (CommentUpdateView urls s req post_id k cform) \<noteq> RedirectToLogin"
  using assms
  by (simp_all add: PostUpdateView_def CommentUpdateView_def user_is_def redirect_not_login
      split: lookup.split)

section \<open>Access to the detail page\<close>

text \<open>The author always gets the post; anybody else gets it when it is published, its
  category is published and its publication date is strictly before the time of the
  request.\<close>

lemma detail_view_access:
  assumes "get_object_or_404 (\<lambda>p. post_pk p = post_id) (posts s) = Found p"
  shows "PostDetailView_get_object s req post_id =
           (if user_is (req_user req) (author_id p)
               \<or> (is_published p \<and> category__is_published s p \<and> pub_date p < req_now req)
            then Found p else DoesNotExist)"
proof -
  let ?V = "\<lambda>p. is_published p \<and> category__is_published s p \<and> pub_date p < req_now req"
  have one: "filter (\<lambda>p. post_pk p = post_id) (posts s) = [p]"
    using assms by (rule get_object_or_404_Found)
  have "filter (\<lambda>p. ?V p \<and> post_pk p = post_id) (posts s)
      = filter ?V (filter (\<lambda>p. post_pk p = post_id) (posts s))"
    by (simp add: conj_commute)
  then have "filter (\<lambda>p. ?V p \<and> post_pk p = post_id) (posts s) = (if ?V p then [p] else [])"
    using one by simp
  then have "get_object_or_404 (\<lambda>p. ?V p \<and> post_pk p = post_id) (posts s)
      = (if ?V p then Found p else DoesNotExist)"
    by (simp add: get_object_or_404_def del: filter_filter)
  then show ?thesis
    using assms by (simp add: PostDetailView_get_object_def)
qed

section \<open>Evaluation on the sample blog\<close>

lemmas sample_defs = blog_def alice_def bob_def travel_def drafts_def sample_post_def
  first_comment_def request_of_def sample_form_def

lemmas list_view_defs = BlogIndexListView_def BlogIndexListView_get_queryset_def
  BlogCategoryListView_def BlogCategoryListView_get_queryset_def
  AuthorProfileListView_def AuthorProfileListView_get_queryset_def
  requester_username_def add_comment_count_annotation_def unannotated_def
  author__username_def category__slug_def category__is_published_def
  post_author_def post_category_def post_comments_def PostsQuerySetMixin_get_queryset_def
  paginate_queryset_def paginator_page_def num_pages_def PAGINATED_BY_def page_items_def
  get_object_or_404_def

lemmas busy_defs = busy_blog_def alice_def bob_def travel_def sample_post_def request_of_def

section \<open>The claims\<close>

subsection \<open>Ownership\<close>

text \<open>
  Claim C1: a request of a logged-in user who is not the author, to delete or edit a post or a
  comment, is answered with a redirect and leaves the entity as it was.

  The entity is indeed left as it was (the lemmas on who changes the store), and
  \<open>PostDeleteView\<close> redirects to the index. The other three views call
  \<open>redirect('blog:post_detail', pk=...)\<close>, while the route is the one the views reverse with
  \<open>post_id\<close> everywhere else: under these routes bob's requests on alice's post and comment
  end in \<open>NoReverseMatch\<close>, a server error instead of a redirect.
\<close>

theorem non_author_request_server_error:
  "\<not> user_is (Authenticated bob) (author_id (sample_post 1 1 True 50))
   \<and> \<not> user_is (Authenticated bob) (comment_author_id first_comment)
   \<and> CommentDeleteView blog_urls blog (request_of POST (Authenticated bob)) 1 1
       = (ServerError NoReverseMatch, blog)
   \<and> CommentUpdateView blog_urls blog (request_of POST (Authenticated bob)) 1 1 (Some ''edited'')
       = (ServerError NoReverseMatch, blog)
   \<and> PostUpdateView blog_urls blog (request_of POST (Authenticated bob)) 1 (Some sample_form)
       = (ServerError NoReverseMatch, blog)
   \<and> PostDeleteView blog_urls blog (request_of POST (Authenticated bob)) 1
       = (HttpResponseRedirect (Url ''blog:index'' []), blog)"
  by (simp add: CommentDeleteView_def CommentUpdateView_def PostUpdateView_def PostDeleteView_def
      LoginRequiredMixin_dispatch_def CommentDeleteView_delete_def PostDeleteView_delete_def
      get_object_or_404_def user_is_def redirect_def reverse_def blog_urls_def sample_defs)

text \<open>
  Claim C2: the ownership check is made both on the request that displays the edit or
  confirmation form and on the request that performs the change, in all four views.

  The two update views check in \<open>dispatch\<close>, before any handler. The two delete views check
  only in \<open>delete\<close>: \<open>get\<close> is the generic one, so bob is shown the confirmation page for
  alice's post and for alice's comment, whatever the routes.
\<close>

theorem non_author_sees_delete_confirmation:
  "\<not> user_is (Authenticated bob) (author_id (sample_post 1 1 True 50))
   \<and> PostDeleteView urls blog (request_of GET (Authenticated bob)) 1
       = (TemplateResponse ''blog/create.html''
            (PostFormContext (Some (sample_post 1 1 True 50))), blog)
   \<and> \<not> user_is (Authenticated bob) (comment_author_id first_comment)
   \<and> CommentDeleteView urls blog (request_of GET (Authenticated bob)) 1 1
       = (TemplateResponse ''blog/comment.html'' (CommentFormContext (Some first_comment)), blog)"
  by (simp add: PostDeleteView_def CommentDeleteView_def LoginRequiredMixin_dispatch_def
      PostDeleteView_get_def CommentDeleteView_get_def get_object_or_404_def user_is_def
      sample_defs)

subsection \<open>Visibility\<close>

text \<open>
  Claim C3: the detail page returns the post to its author always, and to anybody else exactly
  when the post is published, its publication date is not after now and its category is
  published; otherwise the answer is not-found.

  \<open>PostDetailView.get_object\<close> filters with \<open>pub_date__lt\<close>, the list views with
  \<open>pub_date__lte\<close>: a post published exactly now passes the visibility filter, and bob, who is
  not its author, gets \<open>Http404\<close>.
\<close>

theorem detail_not_found_at_publication_time:
  "get_object_or_404 (\<lambda>p. post_pk p = 3) (posts blog) = Found (sample_post 3 1 True 100)
   \<and> \<not> user_is (Authenticated bob) (author_id (sample_post 3 1 True 100))
   \<and> is_published (sample_post 3 1 True 100)
   \<and> pub_date (sample_post 3 1 True 100) \<le> req_now (request_of GET (Authenticated bob))
   \<and> category__is_published blog (sample_post 3 1 True 100)
   \<and> sample_post 3 1 True 100
       \<in> set (map item (page_items
            (BlogIndexListView blog (request_of GET (Authenticated bob)) NoPage)))
   \<and> PostDetailView blog (request_of GET (Authenticated bob)) 3 = Http404"
  by (simp add: PostDetailView_def PostDetailView_get_object_def user_is_def list_view_defs
      sample_defs)

text \<open>
  Claim C4: a post appears in a public listing (index, category, a profile seen by somebody
  other than its owner) only if it is published, its publication date is not after now and its
  category is published.

  The index filters on \<open>category__is_published\<close>; the profile seen by another user applies
  only the mixin's filter. Bob finds on alice's profile her post in the unpublished category.
\<close>

theorem profile_lists_post_of_unpublished_category:
  "requester_username (req_user (request_of GET (Authenticated bob))) \<noteq> ''alice''
   \<and> \<not> category__is_published blog (sample_post 2 2 True 50)
   \<and> sample_post 2 2 True 50
       \<in> set (map item (page_items
            (AuthorProfileListView blog (request_of GET (Authenticated bob)) ''alice'' NoPage)))
   \<and> sample_post 2 2 True 50
       \<notin> set (map item (page_items
            (BlogIndexListView blog (request_of GET (Authenticated bob)) NoPage)))"
  by (simp add: list_view_defs sample_defs)

text \<open>
  Claim C5: every item a list view returns carries a comment count, equal to the number of
  comments of the post.

  The index, the category listing and the profile seen by another user annotate their queryset
  (lemmas \<open>index_queryset_item\<close>, \<open>category_queryset_item\<close>, \<open>other_profile_queryset_item\<close>).
  The owner's own profile returns \<open>request.user.posts\<close> without the annotation: alice's four
  posts come with no comment count, the first of them having one comment.
\<close>

theorem own_profile_has_no_comment_count:
  "map comment_count (page_items
       (AuthorProfileListView blog (request_of GET (Authenticated alice)) ''alice'' NoPage))
     = [None, None, None, None]
   \<and> map (\<lambda>x. length (post_comments blog (item x))) (page_items
       (AuthorProfileListView blog (request_of GET (Authenticated alice)) ''alice'' NoPage))
     = [1, 0, 0, 0]"
  by (simp add: list_view_defs sample_defs)

text \<open>
  Claim C6: a post whose publication date is in the future appears in no public listing (the
  index, a category listing, a profile seen by somebody other than its owner, on any page), and
  it does appear in the profile listing when its author, logged in, looks at the own profile:
  on some page of it.
\<close>

theorem future_post_listings:
  assumes "req_now req < pub_date p"
  shows "p \<notin> set (map item (page_items (BlogIndexListView s req page)))
       \<and> p \<notin> set (map item (page_items (BlogCategoryListView s req category_slug page)))
       \<and> (requester_username (req_user req) \<noteq> uname \<longrightarrow>
            p \<notin> set (map item (page_items (AuthorProfileListView s req uname page))))
       \<and> (req_user req = Authenticated u
            \<and> (req_method req = GET \<or> req_method req = HEAD)
            \<and> get_object_or_404 (\<lambda>x. username x = username u) (users s) = Found u'
            \<and> p \<in> set (posts s) \<and> author_id p = user_pk u \<longrightarrow>
            (\<exists>n. p \<in> set (map item (page_items
                    (AuthorProfileListView s req (username u) (PageNumber n))))))"
proof (intro conjI impI)
  show "p \<notin> set (map item (page_items (BlogIndexListView s req page)))"
  proof
    assume "p \<in> set (map item (page_items (BlogIndexListView s req page)))"
    then obtain x where "x \<in> set (page_items (BlogIndexListView s req page))" and "item x = p"
      by auto
    with index_queryset_item [OF index_items, of x s req page] assms show False
      by simp
  qed
  show "p \<notin> set (map item (page_items (BlogCategoryListView s req category_slug page)))"
  proof
    assume "p \<in> set (map item (page_items (BlogCategoryListView s req category_slug page)))"
    then obtain x
      where "x \<in> set (page_items (BlogCategoryListView s req category_slug page))"
        and "item x = p"
      by auto
    with category_queryset_item [OF category_items, of x s req category_slug page] assms
    show False
      by simp
  qed
next
  assume other: "requester_username (req_user req) \<noteq> uname"
  show "p \<notin> set (map item (page_items (AuthorProfileListView s req uname page)))"
  proof
    assume "p \<in> set (map item (page_items (AuthorProfileListView s req uname page)))"
    then obtain x where x: "x \<in> set (page_items (AuthorProfileListView s req uname page))"
      and "item x = p"
      by auto
    from profile_items [OF x] obtain qs
      where "AuthorProfileListView_get_queryset s req uname = Inr qs" and "x \<in> set qs"
      by blast
    from other_profile_queryset_item [OF this(1) other this(2)] \<open>item x = p\<close> assms
    show False
      by simp
  qed
next
  assume "req_user req = Authenticated u
            \<and> (req_method req = GET \<or> req_method req = HEAD)
            \<and> get_object_or_404 (\<lambda>x. username x = username u) (users s) = Found u'
            \<and> p \<in> set (posts s) \<and> author_id p = user_pk u"
  then show "\<exists>n. p \<in> set (map item (page_items
                    (AuthorProfileListView s req (username u) (PageNumber n))))"
    using own_profile_page [of req u s u' p] by simp
qed

theorem future_post_listings_witness:
  "req_now (request_of GET (Authenticated alice)) < pub_date (sample_post 4 2 False 200)
   \<and> sample_post 4 2 False 200 \<in> set (posts blog)
   \<and> sample_post 4 2 False 200 \<notin> set (map item (page_items
        (BlogIndexListView blog (request_of GET (Authenticated alice)) NoPage)))
   \<and> sample_post 4 2 False 200 \<notin> set (map item (page_items
        (BlogCategoryListView blog (request_of GET (Authenticated alice)) ''drafts'' NoPage)))
   \<and> sample_post 4 2 False 200 \<notin> set (map item (page_items
        (AuthorProfileListView blog (request_of GET (Authenticated bob)) ''alice'' NoPage)))
   \<and> (\<exists>n. sample_post 4 2 False 200 \<in> set (map item (page_items
        (AuthorProfileListView blog (request_of GET (Authenticated alice)) (username alice)
           (PageNumber n)))))"
proof -
  have now: "req_now (request_of GET (Authenticated alice))
      < pub_date (sample_post 4 2 False 200)"
    by (simp add: sample_defs)
  have now': "req_now (request_of GET (Authenticated bob))
      < pub_date (sample_post 4 2 False 200)"
    by (simp add: sample_defs)
  have other: "requester_username (req_user (request_of GET (Authenticated bob))) \<noteq> ''alice''"
    by (simp add: requester_username_def sample_defs)
  have own: "req_user (request_of GET (Authenticated alice)) = Authenticated alice
     \<and> (req_method (request_of GET (Authenticated alice)) = GET
          \<or> req_method (request_of GET (Authenticated alice)) = HEAD)
     \<and> get_object_or_404 (\<lambda>x. username x = username alice) (users blog) = Found alice
     \<and> sample_post 4 2 False 200 \<in> set (posts blog)
     \<and> author_id (sample_post 4 2 False 200) = user_pk alice"
    by (simp add: get_object_or_404_def sample_defs)
  from future_post_listings [OF now, of blog NoPage "''drafts''" "''alice''" alice alice]
    future_post_listings [OF now', of blog NoPage "''drafts''" "''alice''" alice alice]
    now other own
  show ?thesis
    by simp
qed

subsection \<open>Creating comments and posts\<close>

text \<open>
  Claim C7, as amended: for a logged-in user and a submitted comment form that validates, the
  view looks only for the post of the URL. When it exists (published or not, whatever its date,
  category and author) a comment is stored whose post is that post and whose author is the
  requester; when no post has the id, the answer is not-found and nothing is stored; when the
  id is larger than the store's integers, the lookup raises \<open>OverflowError\<close> and nothing is
  stored. A submitted form that does not validate, and the request that displays the form, are
  answered with the form page, the post not being looked up, and nothing is stored.
\<close>

theorem comment_create_valid:
  assumes "req_user req = Authenticated u"
  shows "((req_method req = POST \<or> req_method req = PUT) \<and> post_id \<le> max_key s
            \<and> get_object_or_404 (\<lambda>p. post_pk p = post_id) (posts s) = Found p \<longrightarrow>
            post_pk p = post_id
            \<and> CommentCreateView urls s req post_id (Some f)
                = (redirect urls ''blog:post_detail'' [(''post_id'', IntArg post_id)],
                   s\<lparr>comments := comments s @ [new_comment s p u f (req_now req)]\<rparr>)
            \<and> comment_post_id (new_comment s p u f (req_now req)) = post_id
            \<and> comment_author_id (new_comment s p u f (req_now req)) = user_pk u)
       \<and> ((req_method req = POST \<or> req_method req = PUT) \<and> post_id \<le> max_key s
            \<and> get_object_or_404 (\<lambda>p. post_pk p = post_id) (posts s) = DoesNotExist \<longrightarrow>
            CommentCreateView urls s req post_id (Some f) = (Http404, s))
       \<and> ((req_method req = POST \<or> req_method req = PUT) \<and> max_key s < post_id \<longrightarrow>
            CommentCreateView urls s req post_id (Some f) = (ServerError OverflowError, s))
       \<and> (req_method req = POST \<or> req_method req = PUT \<longrightarrow>
            CommentCreateView urls s req post_id None
              = (TemplateResponse ''blog/comment_form.html'' (CommentFormContext None), s))
       \<and> (req_method req = GET \<or> req_method req = HEAD \<longrightarrow>
            CommentCreateView urls s req post_id form
              = (TemplateResponse ''blog/comment_form.html'' (CommentFormContext None), s))"
proof (intro conjI impI)
  assume h: "(req_method req = POST \<or> req_method req = PUT) \<and> post_id \<le> max_key s
      \<and> get_object_or_404 (\<lambda>p. post_pk p = post_id) (posts s) = Found p"
  then have "filter (\<lambda>p. post_pk p = post_id) (posts s) = [p]"
    by (simp add: get_object_or_404_Found)
  then have "p \<in> set (filter (\<lambda>p. post_pk p = post_id) (posts s))"
    by simp
  then show pk: "post_pk p = post_id"
    by simp
  show "CommentCreateView urls s req post_id (Some f)
      = (redirect urls ''blog:post_detail'' [(''post_id'', IntArg post_id)],
         s\<lparr>comments := comments s @ [new_comment s p u f (req_now req)]\<rparr>)"
    using assms h by (auto simp: CommentCreateView_def CommentCreateView_form_valid_def)
  show "comment_post_id (new_comment s p u f (req_now req)) = post_id"
    using pk by (simp add: new_comment_def)
  show "comment_author_id (new_comment s p u f (req_now req)) = user_pk u"
    by (simp add: new_comment_def)
next
  assume "(req_method req = POST \<or> req_method req = PUT) \<and> post_id \<le> max_key s
      \<and> get_object_or_404 (\<lambda>p. post_pk p = post_id) (posts s) = DoesNotExist"
  then show "CommentCreateView urls s req post_id (Some f) = (Http404, s)"
    using assms by (auto simp: CommentCreateView_def CommentCreateView_form_valid_def)
next
  assume "(req_method req = POST \<or> req_method req = PUT) \<and> max_key s < post_id"
  then show "CommentCreateView urls s req post_id (Some f) = (ServerError OverflowError, s)"
    using assms by (auto simp: CommentCreateView_def CommentCreateView_form_valid_def)
next
  assume "req_method req = POST \<or> req_method req = PUT"
  then show "CommentCreateView urls s req post_id None
      = (TemplateResponse ''blog/comment_form.html'' (CommentFormContext None), s)"
    using assms by (auto simp: CommentCreateView_def)
next
  assume "req_method req = GET \<or> req_method req = HEAD"
  then show "CommentCreateView urls s req post_id form
      = (TemplateResponse ''blog/comment_form.html'' (CommentFormContext None), s)"
    using assms by (auto simp: CommentCreateView_def)
qed

theorem comment_create_valid_witness:
  "req_user (request_of POST (Authenticated bob)) = Authenticated bob
   \<and> req_method (request_of POST (Authenticated bob)) = POST
   \<and> 4 \<le> max_key blog
   \<and> get_object_or_404 (\<lambda>p. post_pk p = 4) (posts blog) = Found (sample_post 4 2 False 200)
   \<and> \<not> is_published (sample_post 4 2 False 200)
   \<and> req_now (request_of POST (Authenticated bob)) < pub_date (sample_post 4 2 False 200)
   \<and> \<not> category__is_published blog (sample_post 4 2 False 200)
   \<and> \<not> user_is (Authenticated bob) (author_id (sample_post 4 2 False 200))
   \<and> CommentCreateView blog_urls blog (request_of POST (Authenticated bob)) 4 (Some ''hi'')
       = (HttpResponseRedirect (Url ''blog:post_detail'' [(''post_id'', IntArg 4)]),
          blog\<lparr>comments := comments blog @
            [\<lparr>comment_pk = 2, comment_post_id = 4, comment_author_id = 2,
              comment_content = ''hi'', created_at = 100\<rparr>]\<rparr>)
   \<and> 9 \<le> max_key blog
   \<and> get_object_or_404 (\<lambda>p. post_pk p = 9) (posts blog) = DoesNotExist
   \<and> CommentCreateView blog_urls blog (request_of POST (Authenticated bob)) 9 (Some ''hi'')
       = (Http404, blog)
   \<and> max_key blog < 9223372036854775808
   \<and> CommentCreateView blog_urls blog (request_of POST (Authenticated bob))
        9223372036854775808 (Some ''hi'')
       = (ServerError OverflowError, blog)
   \<and> CommentCreateView blog_urls blog (request_of POST (Authenticated bob)) 4 None
       = (TemplateResponse ''blog/comment_form.html'' (CommentFormContext None), blog)
   \<and> req_user (request_of GET (Authenticated bob)) = Authenticated bob
   \<and> req_method (request_of GET (Authenticated bob)) = GET
   \<and> CommentCreateView blog_urls blog (request_of GET (Authenticated bob)) 4 (Some ''hi'')
       = (TemplateResponse ''blog/comment_form.html'' (CommentFormContext None), blog)"
proof -
  have u: "req_user (request_of POST (Authenticated bob)) = Authenticated bob"
    by (simp add: request_of_def)
  have u': "req_user (request_of GET (Authenticated bob)) = Authenticated bob"
    by (simp add: request_of_def)
  have m: "req_method (request_of POST (Authenticated bob)) = POST"
    by (simp add: request_of_def)
  have m': "req_method (request_of GET (Authenticated bob)) = GET"
    by (simp add: request_of_def)
  have range: "4 \<le> max_key blog \<and> 9 \<le> max_key blog \<and> max_key blog < 9223372036854775808"
    by (simp add: blog_def)
  have found: "get_object_or_404 (\<lambda>p. post_pk p = 4) (posts blog)
      = Found (sample_post 4 2 False 200)"
    by (simp add: get_object_or_404_def sample_defs)
  have missing: "get_object_or_404 (\<lambda>p. post_pk p = 9) (posts blog) = DoesNotExist"
    by (simp add: get_object_or_404_def sample_defs)
  have hidden: "\<not> is_published (sample_post 4 2 False 200)
      \<and> req_now (request_of POST (Authenticated bob)) < pub_date (sample_post 4 2 False 200)
      \<and> \<not> category__is_published blog (sample_post 4 2 False 200)
      \<and> \<not> user_is (Authenticated bob) (author_id (sample_post 4 2 False 200))"
    by (simp add: category__is_published_def post_category_def user_is_def sample_defs)
  have new: "new_comment blog (sample_post 4 2 False 200) bob ''hi''
        (req_now (request_of POST (Authenticated bob)))
      = \<lparr>comment_pk = 2, comment_post_id = 4, comment_author_id = 2,
         comment_content = ''hi'', created_at = 100\<rparr>"
    by (simp add: new_comment_def next_pk_def sample_defs)
  have url: "redirect blog_urls ''blog:post_detail'' [(''post_id'', IntArg 4)]
      = HttpResponseRedirect (Url ''blog:post_detail'' [(''post_id'', IntArg 4)])"
    by (simp add: redirect_def reverse_def blog_urls_def)
  have pm: "req_method (request_of POST (Authenticated bob)) = POST
      \<or> req_method (request_of POST (Authenticated bob)) = PUT"
    using m by simp
  have gm: "req_method (request_of GET (Authenticated bob)) = GET
      \<or> req_method (request_of GET (Authenticated bob)) = HEAD"
    using m' by simp
  have a: "CommentCreateView blog_urls blog (request_of POST (Authenticated bob)) 4 (Some ''hi'')
      = (redirect blog_urls ''blog:post_detail'' [(''post_id'', IntArg 4)],
         blog\<lparr>comments := comments blog @
           [new_comment blog (sample_post 4 2 False 200) bob ''hi''
              (req_now (request_of POST (Authenticated bob)))]\<rparr>)"
    using comment_create_valid [OF u, where post_id = 4 and s = blog
        and p = "sample_post 4 2 False 200" and urls = blog_urls and f = "''hi''"]
      pm range found
    by blast
  have b: "CommentCreateView blog_urls blog (request_of POST (Authenticated bob)) 9 (Some ''hi'')
      = (Http404, blog)"
    using comment_create_valid [OF u, where post_id = 9 and s = blog and urls = blog_urls
        and f = "''hi''"]
      pm range missing
    by blast
  have c: "CommentCreateView blog_urls blog (request_of POST (Authenticated bob))
        9223372036854775808 (Some ''hi'')
      = (ServerError OverflowError, blog)"
    using comment_create_valid [OF u, where post_id = 9223372036854775808 and s = blog
        and urls = blog_urls and f = "''hi''"]
      pm range
    by blast
  have d: "CommentCreateView blog_urls blog (request_of POST (Authenticated bob)) 4 None
      = (TemplateResponse ''blog/comment_form.html'' (CommentFormContext None), blog)"
    using comment_create_valid [OF u, where post_id = 4 and s = blog and urls = blog_urls] pm
    by blast
  have e: "CommentCreateView blog_urls blog (request_of GET (Authenticated bob)) 4 (Some ''hi'')
      = (TemplateResponse ''blog/comment_form.html'' (CommentFormContext None), blog)"
    using comment_create_valid [OF u', where post_id = 4 and s = blog and urls = blog_urls
        and form = "Some ''hi''"] gm
    by blast
  from a new url have a': "CommentCreateView blog_urls blog
        (request_of POST (Authenticated bob)) 4 (Some ''hi'')
      = (HttpResponseRedirect (Url ''blog:post_detail'' [(''post_id'', IntArg 4)]),
         blog\<lparr>comments := comments blog @
           [\<lparr>comment_pk = 2, comment_post_id = 4, comment_author_id = 2,
             comment_content = ''hi'', created_at = 100\<rparr>]\<rparr>)"
    by (simp only:)
  from u u' m m' range found missing hidden a' b c d e show ?thesis
    by (intro conjI) (simp_all only: simp_thms)
qed

text \<open>The post is looked up in \<open>form_valid\<close> only, and by a query the store can refuse: with an
  id that no post has, a form that does not validate and the request that displays the form
  are answered with the form page, and a validated form under an id beyond the store's
  integers with a server error; none of them with not-found.\<close>

theorem comment_create_counterexample:
  "req_user (request_of POST (Authenticated bob)) = Authenticated bob
   \<and> get_object_or_404 (\<lambda>p. post_pk p = 9) (posts blog) = DoesNotExist
   \<and> CommentCreateView blog_urls blog (request_of POST (Authenticated bob)) 9 None
       = (TemplateResponse ''blog/comment_form.html'' (CommentFormContext None), blog)
   \<and> CommentCreateView blog_urls blog (request_of GET (Authenticated bob)) 9 None
       = (TemplateResponse ''blog/comment_form.html'' (CommentFormContext None), blog)
   \<and> get_object_or_404 (\<lambda>p. post_pk p = 9223372036854775808) (posts blog) = DoesNotExist
   \<and> CommentCreateView blog_urls blog (request_of POST (Authenticated bob))
        9223372036854775808 (Some ''hi'')
       = (ServerError OverflowError, blog)"
  by (simp add: CommentCreateView_def CommentCreateView_form_valid_def get_object_or_404_def
      sample_defs)

text \<open>
  Claim C8: a validated post form submitted by a logged-in user stores a new post whose author
  is the requester (under a key no other post has).
\<close>

theorem post_create_author:
  assumes "req_user req = Authenticated u"
    and "req_method req = POST \<or> req_method req = PUT"
  shows "snd (PostCreateView urls s req (Some f))
           = s\<lparr>posts := posts s @ [new_post s (user_pk u) f]\<rparr>
       \<and> author_id (new_post s (user_pk u) f) = user_pk u
       \<and> post_pk (new_post s (user_pk u) f) \<notin> set (map post_pk (posts s))"
proof (intro conjI)
  show "snd (PostCreateView urls s req (Some f))
      = s\<lparr>posts := posts s @ [new_post s (user_pk u) f]\<rparr>"
    using assms by (auto simp: PostCreateView_def PostCreateView_form_valid_def)
  show "author_id (new_post s (user_pk u) f) = user_pk u"
    by (simp add: new_post_def)
  show "post_pk (new_post s (user_pk u) f) \<notin> set (map post_pk (posts s))"
    using next_pk_fresh [of "map post_pk (posts s)"] by (simp add: new_post_def)
qed

theorem post_create_author_witness:
  "req_user (request_of POST (Authenticated bob)) = Authenticated bob
   \<and> req_method (request_of POST (Authenticated bob)) = POST
   \<and> snd (PostCreateView blog_urls blog (request_of POST (Authenticated bob)) (Some sample_form))
       = blog\<lparr>posts := posts blog @ [new_post blog (user_pk bob) sample_form]\<rparr>
   \<and> author_id (new_post blog (user_pk bob) sample_form) = 2
   \<and> post_pk (new_post blog (user_pk bob) sample_form) = 5"
proof -
  have u: "req_user (request_of POST (Authenticated bob)) = Authenticated bob"
    by (simp add: request_of_def)
  have m: "req_method (request_of POST (Authenticated bob)) = POST
      \<or> req_method (request_of POST (Authenticated bob)) = PUT"
    by (simp add: request_of_def)
  have pk: "post_pk (new_post blog (user_pk bob) sample_form) = 5"
    by (simp add: new_post_def next_pk_def sample_defs)
  from post_create_author [OF u m, of blog_urls blog sample_form] u pk show ?thesis
    by (simp add: request_of_def bob_def)
qed

subsection \<open>Authentication\<close>

text \<open>
  Claim C9: every request without a logged-in user to a view that creates, edits or deletes
  changes nothing and is redirected to the login page.

  Nothing is changed (lemma \<open>anonymous_changes_nothing\<close>), and the create and delete views
  answer with the login redirect (lemma \<open>anonymous_login_redirect\<close>). In the two update
  views the own \<open>dispatch\<close> runs before \<open>LoginRequiredMixin.dispatch\<close>: the anonymous
  requester is not the author, so the answer is what \<open>redirect('blog:post_detail', pk=...)\<close>
  gives, whatever the routes, and not-found when the post does not exist.
\<close>

theorem anonymous_update_not_sent_to_login:
  "PostUpdateView urls blog (request_of POST AnonymousUser) 1 form
     = (redirect urls ''blog:post_detail'' [(''pk'', IntArg 1)], blog)
   \<and> CommentUpdateView urls blog (request_of POST AnonymousUser) 1 1 cform
     = (redirect urls ''blog:post_detail'' [(''pk'', IntArg 1)], blog)
   \<and> redirect urls ''blog:post_detail'' [(''pk'', IntArg 1)] \<noteq> RedirectToLogin
   \<and> PostUpdateView urls blog (request_of POST AnonymousUser) 9 form = (Http404, blog)"
  by (simp add: PostUpdateView_def CommentUpdateView_def get_object_or_404_def user_is_def
      redirect_not_login sample_defs)

subsection \<open>Pagination\<close>

text \<open>
  Claim C10: every page a list view (index, category, profile) returns holds at most 10 items.
\<close>

theorem listing_page_size:
  "(BlogIndexListView s req page = TemplateResponse t (PageContext object_list x)
      \<longrightarrow> length object_list \<le> 10)
   \<and> (BlogCategoryListView s req category_slug page
        = TemplateResponse t (PageContext object_list x)
      \<longrightarrow> length object_list \<le> 10)
   \<and> (AuthorProfileListView s req uname page = TemplateResponse t (PageContext object_list x)
      \<longrightarrow> length object_list \<le> 10)"
proof (intro conjI impI)
  assume "BlogIndexListView s req page = TemplateResponse t (PageContext object_list x)"
  then have "paginate_queryset (BlogIndexListView_get_queryset s req) PAGINATED_BY page
      = Some object_list"
    by (simp add: BlogIndexListView_def split: if_splits option.splits)
  then show "length object_list \<le> 10"
    using paginate_queryset_length by (fastforce simp: PAGINATED_BY_def)
next
  assume "BlogCategoryListView s req category_slug page
      = TemplateResponse t (PageContext object_list x)"
  then have "paginate_queryset (BlogCategoryListView_get_queryset s req category_slug)
      PAGINATED_BY page = Some object_list"
    by (simp add: BlogCategoryListView_def split: if_splits option.splits lookup.splits)
  then show "length object_list \<le> 10"
    using paginate_queryset_length by (fastforce simp: PAGINATED_BY_def)
next
  assume "AuthorProfileListView s req uname page
      = TemplateResponse t (PageContext object_list x)"
  then obtain qs where "paginate_queryset qs PAGINATED_BY page = Some object_list"
    by (auto simp: AuthorProfileListView_def
        split: if_splits option.splits lookup.splits sum.splits)
  then show "length object_list \<le> 10"
    using paginate_queryset_length by (fastforce simp: PAGINATED_BY_def)
qed

theorem listing_page_size_witness:
  "BlogIndexListView busy_blog (request_of GET AnonymousUser) (PageNumber 2)
     = TemplateResponse ''blog/index.html''
         (PageContext [\<lparr>item = sample_post 11 1 True 50, comment_count = Some 0\<rparr>] NoExtra)
   \<and> BlogCategoryListView busy_blog (request_of GET AnonymousUser) ''travel'' PageLast
     = TemplateResponse ''blog/category.html''
         (PageContext [\<lparr>item = sample_post 11 1 True 50, comment_count = Some 0\<rparr>]
            (CategoryOf travel))
   \<and> AuthorProfileListView busy_blog (request_of GET (Authenticated alice)) ''alice''
        (PageNumber 2)
     = TemplateResponse ''blog/profile.html''
         (PageContext [\<lparr>item = sample_post 11 1 True 50, comment_count = None\<rparr>]
            (ProfileOf alice))
   \<and> length [\<lparr>item = sample_post 11 1 True 50, comment_count = Some 0\<rparr>] \<le> 10
   \<and> length [\<lparr>item = sample_post 11 1 True 50, comment_count = None\<rparr>] \<le> 10
   \<and> length (page_items (BlogIndexListView busy_blog (request_of GET AnonymousUser) NoPage))
       = 10"
proof -
  have a: "BlogIndexListView busy_blog (request_of GET AnonymousUser) (PageNumber 2)
     = TemplateResponse ''blog/index.html''
         (PageContext [\<lparr>item = sample_post 11 1 True 50, comment_count = Some 0\<rparr>] NoExtra)"
    by (simp add: list_view_defs busy_defs)
  have b: "BlogCategoryListView busy_blog (request_of GET AnonymousUser) ''travel'' PageLast
     = TemplateResponse ''blog/category.html''
         (PageContext [\<lparr>item = sample_post 11 1 True 50, comment_count = Some 0\<rparr>]
            (CategoryOf travel))"
    by (simp add: list_view_defs busy_defs)
  have c: "AuthorProfileListView busy_blog (request_of GET (Authenticated alice)) ''alice''
        (PageNumber 2)
     = TemplateResponse ''blog/profile.html''
         (PageContext [\<lparr>item = sample_post 11 1 True 50, comment_count = None\<rparr>]
            (ProfileOf alice))"
    by (simp add: list_view_defs busy_defs)
  have d: "length (page_items
      (BlogIndexListView busy_blog (request_of GET AnonymousUser) NoPage)) = 10"
    by (simp add: list_view_defs busy_defs)
  from a b c d
    listing_page_size [where s = busy_blog and req = "request_of GET AnonymousUser"
      and page = "PageNumber 2" and t = "''blog/index.html''" and x = NoExtra
      and object_list = "[\<lparr>item = sample_post 11 1 True 50, comment_count = Some 0\<rparr>]"]
    listing_page_size [where s = busy_blog and req = "request_of GET AnonymousUser"
      and page = PageLast and t = "''blog/category.html''" and x = "CategoryOf travel"
      and category_slug = "''travel''"
      and object_list = "[\<lparr>item = sample_post 11 1 True 50, comment_count = Some 0\<rparr>]"]
    listing_page_size [where s = busy_blog and req = "request_of GET (Authenticated alice)"
      and page = "PageNumber 2" and t = "''blog/profile.html''" and x = "ProfileOf alice"
      and uname = "''alice''"
      and object_list = "[\<lparr>item = sample_post 11 1 True 50, comment_count = None\<rparr>]"]
  show ?thesis
    by simp
qed

end
